theory Spec2Isabelle
  imports Main
begin

section \<open>Shared helpers: JavaScript strings and numbers\<close>

text \<open>
  Text that the program only stores, compares or concatenates (element ids, class names,
  messages, style values) is a \<^typ>\<open>string\<close>. A number that a template literal prints is
  an integer here, and \<open>number_text\<close> is its JavaScript \<open>ToString\<close>: the decimal digits,
  with a leading minus sign when negative.
\<close>

definition digit :: "nat \<Rightarrow> char" where
  "digit n = ''0123456789'' ! n"

fun decimal :: "nat \<Rightarrow> string" where
  "decimal n = (if n < 10 then [digit n] else decimal (n div 10) @ [digit (n mod 10)])"

declare decimal.simps [simp del]

definition number_text :: "int \<Rightarrow> string" where
  "number_text i = (if i < 0 then ''-'' @ decimal (nat (- i)) else decimal (nat i))"

text \<open>\<open>String.prototype.includes\<close>: \<open>str_includes s t\<close> holds when \<open>t\<close> occurs in \<open>s\<close>.\<close>

fun starts_with :: "string \<Rightarrow> string \<Rightarrow> bool" where
  "starts_with s [] = True"
| "starts_with [] (c # t) = False"
| "starts_with (d # s) (c # t) = (d = c \<and> starts_with s t)"

fun str_includes :: "string \<Rightarrow> string \<Rightarrow> bool" where
  "str_includes [] t = (t = [])"
| "str_includes (d # s) t = (starts_with (d # s) t \<or> str_includes s t)"


section \<open>Formatter: \<open>formatDate\<close> and \<open>formatRelativeTime\<close>\<close>

text \<open>
  The argument \<open>dateString\<close> is \<open>None\<close> when it is absent (\<open>null\<close>, \<open>undefined\<close>), and
  \<open>Some s\<close> for the string \<open>s\<close>; \<open>!dateString\<close> holds for the absent and for the empty
  string. The platform's date parser is a parameter: \<open>parse s\<close> is the time value of
  \<open>new Date(s)\<close> in milliseconds, \<open>None\<close> for an Invalid Date (time value \<open>NaN\<close>). The clock
  \<open>now\<close> is the time value of \<open>new Date()\<close>. The locale rendering of \<open>formatDate\<close> is the
  parameter \<open>toLocaleDateString\<close>.

  Time values are integers of magnitude at most \<open>8.64 * 10^15\<close>. The source computes in
  doubles; for \<open>\<bar>now - date\<bar> \<le> 2^53\<close> the subtraction is exact and the quotient by
  \<open>86400000\<close> is below \<open>2^27\<close>, where the rounding error of a double division is smaller
  than \<open>1 / 86400000\<close>, so \<open>Math.floor\<close> of the double quotient is the integer floor
  division written here. A \<open>NaN\<close> difference fails every comparison and reaches the last
  \<open>return\<close>.
\<close>

definition formatDate ::
  "(string \<Rightarrow> int option) \<Rightarrow> (int option \<Rightarrow> string) \<Rightarrow> string option \<Rightarrow> string" where
  "formatDate parse toLocaleDateString dateString =
     (case dateString of
        None \<Rightarrow> ''Not set''
      | Some s \<Rightarrow> if s = [] then ''Not set'' else toLocaleDateString (parse s))"

definition relative_bucket :: "int \<Rightarrow> string" where
  "relative_bucket diffDays =
     (if diffDays = 0 then ''Today''
      else if diffDays = 1 then ''Yesterday''
      else if diffDays < 7 then number_text diffDays @ '' days ago''
      else if diffDays < 30 then number_text (diffDays div 7) @ '' weeks ago''
      else if diffDays < 365 then number_text (diffDays div 30) @ '' months ago''
      else number_text (diffDays div 365) @ '' years ago'')"

definition formatRelativeTime ::
  "(string \<Rightarrow> int option) \<Rightarrow> int \<Rightarrow> string option \<Rightarrow> string" where
  "formatRelativeTime parse now dateString =
     (case dateString of
        None \<Rightarrow> ''Unknown''
      | Some s \<Rightarrow>
          if s = [] then ''Unknown''
          else (case parse s of
                  None \<Rightarrow> ''NaN years ago''
                | Some date \<Rightarrow>
                    let diffMs = now - date;
                        diffDays = diffMs div (1000 * 60 * 60 * 24)
                    in relative_bucket diffDays))"


section \<open>The document\<close>

text \<open>
  The document is the list of its elements in document order, with the inline style of
  \<open>document.body\<close> reduced to the one property the program writes, \<open>overflow\<close>. An
  element carries the attributes and properties the program reads or writes: its \<open>id\<close>,
  its \<open>class\<close> attribute, the inline style declarations \<open>display\<close> and \<open>borderColor\<close>
  (the empty string when not declared) and the text of its remaining inline declarations,
  the \<open>required\<close> attribute, the \<open>value\<close> of a form control and its \<open>textContent\<close>.
  \<open>node\<close> is the identity of the element object, by which a closure created by
  \<open>showAlert\<close> finds its element again later.

  The program writes \<open>style.display\<close> and never reads it; what reads the inline style is
  the attribute selector of the Escape listener, which searches the text of the \<open>style\<close>
  attribute. So \<open>display\<close> is the value of the declaration as the attribute spells it:
  \<open>block\<close> or \<open>none\<close> once the program has written it, and for a style that comes from
  the markup the markup's own spelling (\<open>BLOCK\<close> for \<open>style="display:BLOCK"\<close>, where
  \<open>style.display\<close> would read \<open>block\<close>). The browser writes the attribute anew when a
  script sets a property; \<open>other_style\<close> stands for declarations whose text this leaves
  as it is.

  The list is flat: it does not record which element contains which. The program walks
  the tree in two places only. \<open>formElement.querySelectorAll\<close> searches the descendants
  of a form, and a form scope is given as the list of those descendants. \<open>remove()\<close>
  detaches an element with its descendants; the elements of class \<open>alert\<close>, the only ones
  removed, are taken to hold text and no elements, as the ones that \<open>showAlert\<close> creates
  do.
\<close>

record element =
  node :: nat
  elem_id :: string
  className :: string
  display :: string
  borderColor :: string
  other_style :: string
  required :: bool
  field_value :: "nat list"
  textContent :: string

record page =
  elements :: "element list"
  overflow :: string
  next_node :: nat
  timers :: "(nat \<times> nat) list"
  click_listeners :: "nat list"

text \<open>\<open>document.createElement('div')\<close>: a new, unattached element with nothing set.\<close>

definition createElement :: "nat \<Rightarrow> element" where
  "createElement n =
     \<lparr>node = n, elem_id = [], className = [], display = [], borderColor = [],
      other_style = [], required = False, field_value = [], textContent = []\<rparr>"

text \<open>
  \<open>classList\<close> is the \<open>class\<close> attribute split at ASCII whitespace; a class selector and
  \<open>classList.contains\<close> test membership in it.
\<close>

definition is_space :: "char \<Rightarrow> bool" where
  "is_space c =
     (c = CHR '' '' \<or> c = CHR 0x09 \<or> c = CHR 0x0A \<or> c = CHR 0x0C \<or> c = CHR 0x0D)"

fun tokens_from :: "string \<Rightarrow> string \<Rightarrow> string list" where
  "tokens_from cur [] = (if cur = [] then [] else [cur])"
| "tokens_from cur (c # cs) =
     (if is_space c then (if cur = [] then [] else [cur]) @ tokens_from [] cs
      else tokens_from (cur @ [c]) cs)"

definition classList :: "element \<Rightarrow> string list" where
  "classList e = tokens_from [] (className e)"

definition has_class :: "string \<Rightarrow> element \<Rightarrow> bool" where
  "has_class c e = (c \<in> set (classList e))"

text \<open>
  The text of the \<open>style\<close> attribute, which the attribute selector \<open>[style*="block"]\<close>
  searches: the declarations, each with its value as the attribute spells it. The
  property names and the punctuation between the declarations hold no \<open>block\<close>, so
  whether the text contains \<open>block\<close> depends on the values alone.
\<close>

definition style_attr :: "element \<Rightarrow> string" where
  "style_attr e =
     (if display e = [] then [] else ''display: '' @ display e @ ''; '') @
     (if borderColor e = [] then [] else ''border-color: '' @ borderColor e @ ''; '') @
     other_style e"

text \<open>
  \<open>document.getElementById\<close>: the position of the first element in document order whose
  id is the given one; no element has the empty id.
\<close>

fun index_of_id :: "string \<Rightarrow> element list \<Rightarrow> nat option" where
  "index_of_id i [] = None"
| "index_of_id i (e # es) =
     (if elem_id e = i then Some 0 else map_option Suc (index_of_id i es))"

definition getElementById :: "string \<Rightarrow> page \<Rightarrow> nat option" where
  "getElementById i p = (if i = [] then None else index_of_id i (elements p))"

definition set_display :: "nat \<Rightarrow> string \<Rightarrow> element list \<Rightarrow> element list" where
  "set_display k v es = es[k := (es ! k)\<lparr>display := v\<rparr>]"


section \<open>ModalController: \<open>showModal\<close>, \<open>hideModal\<close> and the global listeners\<close>

definition showModal :: "string \<Rightarrow> page \<Rightarrow> page" where
  "showModal modalId p =
     (case getElementById modalId p of
        None \<Rightarrow> p
      | Some modal \<Rightarrow>
          p\<lparr>elements := set_display modal ''block'' (elements p), overflow := ''hidden''\<rparr>)"

definition hideModal :: "string \<Rightarrow> page \<Rightarrow> page" where
  "hideModal modalId p =
     (case getElementById modalId p of
        None \<Rightarrow> p
      | Some modal \<Rightarrow>
          p\<lparr>elements := set_display modal ''none'' (elements p), overflow := ''auto''\<rparr>)"

text \<open>
  \<open>window.onclick\<close>: the event's target is the element at position \<open>target\<close> of the
  document. A click always has a target in the document; a position beyond it stands for
  no click, and changes nothing.
\<close>

definition window_onclick :: "nat \<Rightarrow> page \<Rightarrow> page" where
  "window_onclick target p =
     (if target < length (elements p) \<and> has_class ''modal'' (elements p ! target)
      then p\<lparr>elements := set_display target ''none'' (elements p), overflow := ''auto''\<rparr>
      else p)"

text \<open>The \<open>keydown\<close> listener; the selector is \<open>.modal[style*="block"]\<close>.\<close>

definition open_modal :: "element \<Rightarrow> bool" where
  "open_modal e = (has_class ''modal'' e \<and> str_includes (style_attr e) ''block'')"

definition keydown :: "string \<Rightarrow> page \<Rightarrow> page" where
  "keydown key p =
     (if key = ''Escape''
      then p\<lparr>elements :=
               map (\<lambda>modal. if open_modal modal then modal\<lparr>display := ''none''\<rparr> else modal)
                 (elements p),
             overflow := ''auto''\<rparr>
      else p)"

text \<open>Sequences of modal operations, and what the claims observe of a page.\<close>

datatype modal_op = Show string | Hide string | OutsideClick nat | KeyDown string

fun modal_step :: "page \<Rightarrow> modal_op \<Rightarrow> page" where
  "modal_step p (Show i) = showModal i p"
| "modal_step p (Hide i) = hideModal i p"
| "modal_step p (OutsideClick target) = window_onclick target p"
| "modal_step p (KeyDown key) = keydown key p"

definition run_modal_ops :: "modal_op list \<Rightarrow> page \<Rightarrow> page" where
  "run_modal_ops ops p = foldl modal_step p ops"

definition scroll_locked :: "page \<Rightarrow> bool" where
  "scroll_locked p = (overflow p = ''hidden'')"

definition display_of :: "string \<Rightarrow> page \<Rightarrow> string option" where
  "display_of i p = map_option (\<lambda>k. display (elements p ! k)) (getElementById i p)"


section \<open>Notifier: \<open>showAlert\<close>\<close>

text \<open>
  The parameter \<open>type\<close> is \<open>None\<close> when the argument is omitted. \<open>setTimeout\<close> adds the
  pair of the delay and the alert's node to \<open>timers\<close>, \<open>addEventListener\<close> adds the node
  to \<open>click_listeners\<close>; \<open>alert_timeout\<close> and \<open>alert_click\<close> are the two callbacks.
  Removing an element that is no longer attached changes nothing, so the test of
  \<open>parentNode\<close> in the timer's callback needs no branch.
\<close>

definition showAlert :: "string \<Rightarrow> string option \<Rightarrow> page \<Rightarrow> page" where
  "showAlert message type p =
     (let kind = (case type of None \<Rightarrow> ''success'' | Some t \<Rightarrow> t);
          remaining = filter (\<lambda>alert. \<not> has_class ''alert'' alert) (elements p);
          alertDiv = (createElement (next_node p))
            \<lparr>className := ''alert alert-'' @ kind, textContent := message\<rparr>
      in p\<lparr>elements := remaining @ [alertDiv],
            next_node := Suc (next_node p),
            timers := timers p @ [(4000, node alertDiv)],
            click_listeners := click_listeners p @ [node alertDiv]\<rparr>)"

definition alert_timeout :: "nat \<Rightarrow> page \<Rightarrow> page" where
  "alert_timeout n p =
     p\<lparr>elements := filter (\<lambda>e. node e \<noteq> n) (elements p),
       timers := remove1 (4000, n) (timers p)\<rparr>"

definition alert_click :: "nat \<Rightarrow> page \<Rightarrow> page" where
  "alert_click n p =
     (if n \<in> set (click_listeners p)
      then p\<lparr>elements := filter (\<lambda>e. node e \<noteq> n) (elements p)\<rparr>
      else p)"

definition alerts :: "page \<Rightarrow> element list" where
  "alerts p = filter (has_class ''alert'') (elements p)"


section \<open>Validator: \<open>validateForm\<close> and \<open>resetFormValidation\<close>\<close>

text \<open>
  A form scope is the list of the form's descendants in document order, the elements
  that \<open>formElement.querySelectorAll\<close> searches. The elements with the \<open>required\<close>
  attribute are form controls (\<open>input\<close>, \<open>select\<close>, \<open>textarea\<close>), whose \<open>value\<close> is a
  string; it is a list of UTF-16 code units here, so that \<open>trim\<close> removes exactly the
  white space and line terminators of the language.
\<close>

definition js_whitespace :: "nat \<Rightarrow> bool" where
  "js_whitespace c =
     ((9 \<le> c \<and> c \<le> 13) \<or> c = 32 \<or> c = 160 \<or> c = 5760 \<or> (8192 \<le> c \<and> c \<le> 8202) \<or>
      c = 8232 \<or> c = 8233 \<or> c = 8239 \<or> c = 8287 \<or> c = 12288 \<or> c = 65279)"

definition trim :: "nat list \<Rightarrow> nat list" where
  "trim s = rev (dropWhile js_whitespace (rev (dropWhile js_whitespace s)))"

text \<open>
  The \<open>forEach\<close> loop of \<open>validateForm\<close>, with the variable \<open>isValid\<close> passed along; the
  fields come back with their border colours written.
\<close>

fun validate_fields :: "element list \<Rightarrow> bool \<Rightarrow> bool \<times> element list" where
  "validate_fields [] isValid = (isValid, [])"
| "validate_fields (field # rest) isValid =
     (if required field
      then (if trim (field_value field) = []
            then (case validate_fields rest False of
                    (v, rest') \<Rightarrow> (v, field\<lparr>borderColor := ''#de350b''\<rparr> # rest'))
            else (case validate_fields rest isValid of
                    (v, rest') \<Rightarrow> (v, field\<lparr>borderColor := ''#dfe1e6''\<rparr> # rest')))
      else (case validate_fields rest isValid of (v, rest') \<Rightarrow> (v, field # rest')))"

definition validateForm :: "element list \<Rightarrow> bool \<times> element list" where
  "validateForm formElement = validate_fields formElement True"

definition resetFormValidation :: "element list \<Rightarrow> element list" where
  "resetFormValidation formElement =
     map (\<lambda>field. if has_class ''form-control'' field
                   then field\<lparr>borderColor := ''#dfe1e6''\<rparr> else field)
       formElement"

definition marked_invalid :: "element \<Rightarrow> bool" where
  "marked_invalid field = (borderColor field = ''#de350b'')"

definition marking_cleared :: "element \<Rightarrow> bool" where
  "marking_cleared field = (borderColor field = ''#dfe1e6'')"


section \<open>RequestClient: \<open>makeRequest\<close>\<close>

text \<open>
  A parsed JSON value. A number is held as the text that \<open>ToString\<close> gives for it, which
  is all the program can observe of it: \<open>''0''\<close> for both zeros, the only falsy numbers
  that JSON can hold.
\<close>

datatype json =
  JNull | JBool bool | JNum string | JStr string | JArr "json list" | JObj "(string \<times> json) list"

fun truthy :: "json \<Rightarrow> bool" where
  "truthy JNull = False"
| "truthy (JBool b) = b"
| "truthy (JNum t) = (t \<noteq> ''0'')"
| "truthy (JStr s) = (s \<noteq> [])"
| "truthy (JArr xs) = True"
| "truthy (JObj kvs) = True"

fun join_comma :: "string list \<Rightarrow> string" where
  "join_comma [] = []"
| "join_comma [x] = x"
| "join_comma (x # y # ys) = x @ '','' @ join_comma (y # ys)"

text \<open>\<open>ToString\<close>, which \<open>new Error(x)\<close> applies to its argument.\<close>

fun to_string :: "json \<Rightarrow> string" where
  "to_string JNull = ''null''"
| "to_string (JBool b) = (if b then ''true'' else ''false'')"
| "to_string (JNum t) = t"
| "to_string (JStr s) = s"
| "to_string (JArr xs) = join_comma (map (\<lambda>x. if x = JNull then [] else to_string x) xs)"
| "to_string (JObj kvs) = ''[object Object]''"

text \<open>
  An error object has a name and a message. The platform is a parameter: \<open>fetch\<close> either
  rejects with an error or resolves to a response; \<open>response.json()\<close> and
  \<open>response.text()\<close> each reject with an error or resolve to the decoded body;
  \<open>stringify\<close> is \<open>JSON.stringify\<close> on a JSON value; \<open>null_read_error\<close> is the
  \<open>TypeError\<close> that the engine throws when a property of \<open>null\<close> is read, whose text
  differs between engines. \<open>response.ok\<close> holds for a status from 200 to 299.
\<close>

datatype js_error = JsError (error_name: string) (message: string)

record options =
  http_method :: string
  headers :: "(string \<times> string) list"
  body :: "string option"

record response =
  status :: nat
  statusText :: string
  content_type :: "string option"
  json_result :: "js_error + json"
  text_result :: "js_error + string"

datatype fetch_result = Rejected js_error | Resolved response

record platform =
  fetch :: "string \<Rightarrow> options \<Rightarrow> fetch_result"
  stringify :: "json \<Rightarrow> string"
  null_read_error :: js_error

definition ok :: "response \<Rightarrow> bool" where
  "ok r = (200 \<le> status r \<and> status r \<le> 299)"

datatype payload = Text string | Json json

text \<open>The body of the response, decoded by its declared content type.\<close>

definition decode_body :: "response \<Rightarrow> js_error + payload" where
  "decode_body r =
     (if (case content_type r of
            None \<Rightarrow> False
          | Some contentType \<Rightarrow> contentType \<noteq> [] \<and> str_includes contentType ''application/json'')
      then (case json_result r of Inl e \<Rightarrow> Inl e | Inr v \<Rightarrow> Inr (Json v))
      else (case text_result r of Inl e \<Rightarrow> Inl e | Inr s \<Rightarrow> Inr (Text s)))"

text \<open>
  The property read \<open>result.message\<close>: \<open>undefined\<close> (\<open>None\<close>) on a string, and on a JSON
  value that is not an object with that key; a \<open>TypeError\<close> on \<open>null\<close>.
\<close>

fun read_message :: "platform \<Rightarrow> payload \<Rightarrow> js_error + json option" where
  "read_message pf (Text s) = Inr None"
| "read_message pf (Json JNull) = Inl (null_read_error pf)"
| "read_message pf (Json (JObj kvs)) = Inr (map_of kvs ''message'')"
| "read_message pf (Json v) = Inr None"

definition http_status_message :: "response \<Rightarrow> string" where
  "http_status_message r = ''HTTP '' @ decimal (status r) @ '': '' @ statusText r"

text \<open>The statements inside \<open>try\<close>: \<open>Inl\<close> is the error thrown there, \<open>Inr\<close> the value returned.\<close>

definition try_block :: "platform \<Rightarrow> string \<Rightarrow> options \<Rightarrow> js_error + payload" where
  "try_block pf url opts =
     (case fetch pf url opts of
        Rejected e \<Rightarrow> Inl e
      | Resolved r \<Rightarrow>
          (case decode_body r of
             Inl e \<Rightarrow> Inl e
           | Inr result \<Rightarrow>
               if \<not> ok r
               then (case read_message pf result of
                       Inl e \<Rightarrow> Inl e
                     | Inr None \<Rightarrow> Inl (JsError ''Error'' (http_status_message r))
                     | Inr (Some m) \<Rightarrow>
                         Inl (JsError ''Error''
                                (if truthy m then to_string m else http_status_message r)))
               else Inr result))"

text \<open>
  What \<open>makeRequest\<close> does besides returning or throwing: the calls of \<open>console.error\<close>
  and of \<open>showAlert\<close>, in order.
\<close>

datatype effect = ConsoleError string js_error | ShowAlert string "string option"

definition request_options :: "platform \<Rightarrow> string option \<Rightarrow> json option \<Rightarrow> options" where
  "request_options pf meth data =
     \<lparr>http_method = (case meth of None \<Rightarrow> ''GET'' | Some m \<Rightarrow> m),
      headers = [(''Content-Type'', ''application/json'')],
      body = (case data of
                None \<Rightarrow> None
              | Some d \<Rightarrow> if truthy d then Some (stringify pf d) else None)\<rparr>"

definition makeRequest ::
  "platform \<Rightarrow> string \<Rightarrow> string option \<Rightarrow> json option \<Rightarrow> (js_error + payload) \<times> effect list" where
  "makeRequest pf url meth data =
     (case try_block pf url (request_options pf meth data) of
        Inr result \<Rightarrow> (Inr result, [])
      | Inl error \<Rightarrow>
          (Inl error,
           [ConsoleError ''Request failed:'' error, ShowAlert (message error) (Some ''error'')]))"

fun perform :: "effect \<Rightarrow> page \<Rightarrow> page" where
  "perform (ConsoleError label e) p = p"
| "perform (ShowAlert msg type) p = showAlert msg type p"

definition alert_calls :: "effect list \<Rightarrow> (string \<times> string option) list" where
  "alert_calls effs =
     concat (map (\<lambda>eff. case eff of ShowAlert msg type \<Rightarrow> [(msg, type)] | _ \<Rightarrow> []) effs)"

text \<open>
  The error policy in the words of the specification: the \<open>message\<close> field of a JSON
  error payload if present, otherwise the synthesized text, and for a transport failure
  the error's own message. \<open>message_field\<close> is the field of that name of a payload that is
  a JSON object.
\<close>

definition message_field :: "payload \<Rightarrow> json option" where
  "message_field result =
     (case result of Json (JObj kvs) \<Rightarrow> map_of kvs ''message'' | _ \<Rightarrow> None)"

definition spec_failure_message :: "fetch_result \<Rightarrow> string" where
  "spec_failure_message outcome =
     (case outcome of
        Rejected e \<Rightarrow> message e
      | Resolved r \<Rightarrow>
          (case decode_body r of
             Inl e \<Rightarrow> http_status_message r
           | Inr result \<Rightarrow>
               (case message_field result of
                  Some m \<Rightarrow> to_string m
                | None \<Rightarrow> http_status_message r)))"


section \<open>Closing operations and example pages\<close>

text \<open>
  A modal operation closes a modal when it is \<open>hideModal\<close> of an id that the document
  has, a click whose target has the class \<open>modal\<close>, or a press of the Escape key.
\<close>

fun closing_op :: "page \<Rightarrow> modal_op \<Rightarrow> bool" where
  "closing_op p (Show i) = False"
| "closing_op p (Hide i) = (getElementById i p \<noteq> None)"
| "closing_op p (OutsideClick target) =
     (target < length (elements p) \<and> has_class ''modal'' (elements p ! target))"
| "closing_op p (KeyDown key) = (key = ''Escape'')"

text \<open>A page with two hidden modals \<open>a\<close> and \<open>b\<close>, as it is after loading.\<close>

definition two_modals :: page where
  "two_modals =
     \<lparr>elements =
        [(createElement 0)\<lparr>elem_id := ''a'', className := ''modal'', display := ''none''\<rparr>,
         (createElement 1)\<lparr>elem_id := ''b'', className := ''modal'', display := ''none''\<rparr>],
      overflow = [], next_node = 2, timers = [], click_listeners = []\<rparr>"

text \<open>
  A page with a modal \<open>a\<close>, an element \<open>x\<close> that has not the class \<open>modal\<close>, a modal \<open>f\<close>
  that the markup displays as \<open>flex\<close>, and a modal \<open>u\<close> whose markup spells the value
  \<open>BLOCK\<close>.
\<close>

definition mixed_page :: page where
  "mixed_page =
     \<lparr>elements =
        [(createElement 0)\<lparr>elem_id := ''a'', className := ''modal'', display := ''none''\<rparr>,
         (createElement 1)\<lparr>elem_id := ''x'', className := ''panel'', display := ''none''\<rparr>,
         (createElement 2)\<lparr>elem_id := ''f'', className := ''modal'', display := ''flex''\<rparr>,
         (createElement 3)\<lparr>elem_id := ''u'', className := ''modal'', display := ''BLOCK''\<rparr>],
      overflow = [], next_node = 4, timers = [], click_listeners = []\<rparr>"


text \<open>
  A form with two required fields, the first holding only white space (a space and a
  tab), the second the text \<open>ab\<close> after a space; and two forms of one empty required
  field, without and with the class \<open>form-control\<close>.
\<close>

definition two_required :: "element list" where
  "two_required =
     [(createElement 0)\<lparr>required := True, field_value := [32, 9]\<rparr>,
      (createElement 1)\<lparr>required := True, field_value := [32, 97, 98]\<rparr>]"

definition unstyled_required :: "element list" where
  "unstyled_required = [(createElement 0)\<lparr>required := True\<rparr>]"

definition styled_required :: "element list" where
  "styled_required = [(createElement 0)\<lparr>className := ''form-control'', required := True\<rparr>]"

text \<open>The first form again, followed by a field that is not required and carries a marking.\<close>

definition with_optional :: "element list" where
  "with_optional = two_required @ [(createElement 2)\<lparr>borderColor := ''#de350b''\<rparr>]"

text \<open>
  A simulated platform, whose \<open>fetch\<close> resolves to the given response whatever the
  request, and four simulated responses. The requests of the examples carry no body, so
  \<open>stringify\<close> is never applied there.
\<close>

definition simulated :: "response \<Rightarrow> platform" where
  "simulated r =
     \<lparr>fetch = (\<lambda>url opts. Resolved r),
      stringify = (\<lambda>d. []),
      null_read_error = JsError ''TypeError'' ''Cannot read properties of null''\<rparr>"

definition bad_input_400 :: response where
  "bad_input_400 =
     \<lparr>status = 400, statusText = ''Bad Request'', content_type = Some ''application/json'',
      json_result = Inr (JObj [(''message'', JStr ''bad input'')]),
      text_result = Inl (JsError ''TypeError'' ''body stream already read'')\<rparr>"

definition empty_message_400 :: response where
  "empty_message_400 =
     \<lparr>status = 400, statusText = ''Bad Request'', content_type = Some ''application/json'',
      json_result = Inr (JObj [(''message'', JStr [])]),
      text_result = Inl (JsError ''TypeError'' ''body stream already read'')\<rparr>"

definition empty_json_500 :: response where
  "empty_json_500 =
     \<lparr>status = 500, statusText = ''Internal Server Error'',
      content_type = Some ''application/json'',
      json_result = Inl (JsError ''SyntaxError'' ''Unexpected end of JSON input''),
      text_result = Inr []\<rparr>"

definition empty_text_500 :: response where
  "empty_text_500 =
     \<lparr>status = 500, statusText = ''Internal Server Error'', content_type = Some ''text/html'',
      json_result = Inl (JsError ''SyntaxError'' ''Unexpected end of JSON input''),
      text_result = Inr []\<rparr>"

text \<open>A response of success status, and a platform whose \<open>fetch\<close> always rejects.\<close>

definition created_201 :: response where
  "created_201 =
     \<lparr>status = 201, statusText = ''Created'', content_type = Some ''application/json'',
      json_result = Inr (JObj [(''id'', JNum ''7'')]),
      text_result = Inl (JsError ''TypeError'' ''body stream already read'')\<rparr>"

definition offline :: platform where
  "offline =
     \<lparr>fetch = (\<lambda>url opts. Rejected (JsError ''TypeError'' ''Failed to fetch'')),
      stringify = (\<lambda>d. []),
      null_read_error = JsError ''TypeError'' ''Cannot read properties of null''\<rparr>"


section \<open>Properties of the Formatter\<close>

text \<open>
  C4. A non-empty timestamp exactly \<open>N\<close> whole days before now is rendered as
  \<open>Today\<close> for \<open>N = 0\<close>, \<open>Yesterday\<close> for \<open>N = 1\<close>, \<open>N days ago\<close> for \<open>N\<close> from 2 to 6,
  \<open>floor (N / 7) weeks ago\<close> for \<open>N\<close> from 7 to 29, \<open>floor (N / 30) months ago\<close> for \<open>N\<close>
  from 30 to 364, and \<open>floor (N / 365) years ago\<close> from 365 on.
\<close>

theorem formatRelativeTime_whole_days:
  assumes "s \<noteq> []" and "parse s = Some date" and "now - date = N * 86400000" and "0 \<le> N"
  shows "formatRelativeTime parse now (Some s) =
     (if N = 0 then ''Today''
      else if N = 1 then ''Yesterday''
      else if 2 \<le> N \<and> N \<le> 6 then number_text N @ '' days ago''
      else if 7 \<le> N \<and> N \<le> 29 then number_text (N div 7) @ '' weeks ago''
      else if 30 \<le> N \<and> N \<le> 364 then number_text (N div 30) @ '' months ago''
      else number_text (N div 365) @ '' years ago'')"
proof -
  have "(now - date) div (1000 * 60 * 60 * 24) = N"
    using assms(3) by simp
  then show ?thesis
    using assms(1,2,4) by (auto simp: formatRelativeTime_def relative_bucket_def Let_def)
qed

text \<open>
  C4, at the inputs the specification lists: 10 days give \<open>1 weeks ago\<close>, 40 days
  \<open>1 months ago\<close>, 400 days \<open>1 years ago\<close>, 3 days \<open>3 days ago\<close>, one day \<open>Yesterday\<close>
  and no day \<open>Today\<close>.
\<close>

theorem formatRelativeTime_whole_days_witness:
  "formatRelativeTime (\<lambda>s. if s = ''2024-01-01T00:00:00Z'' then Some 1704067200000 else None)
      (1704067200000 + 10 * 86400000) (Some ''2024-01-01T00:00:00Z'') = ''1 weeks ago'' \<and>
   formatRelativeTime (\<lambda>s. if s = ''2024-01-01T00:00:00Z'' then Some 1704067200000 else None)
      (1704067200000 + 40 * 86400000) (Some ''2024-01-01T00:00:00Z'') = ''1 months ago'' \<and>
   formatRelativeTime (\<lambda>s. if s = ''2024-01-01T00:00:00Z'' then Some 1704067200000 else None)
      (1704067200000 + 400 * 86400000) (Some ''2024-01-01T00:00:00Z'') = ''1 years ago'' \<and>
   formatRelativeTime (\<lambda>s. if s = ''2024-01-01T00:00:00Z'' then Some 1704067200000 else None)
      (1704067200000 + 3 * 86400000) (Some ''2024-01-01T00:00:00Z'') = ''3 days ago'' \<and>
   formatRelativeTime (\<lambda>s. if s = ''2024-01-01T00:00:00Z'' then Some 1704067200000 else None)
      (1704067200000 + 1 * 86400000) (Some ''2024-01-01T00:00:00Z'') = ''Yesterday'' \<and>
   formatRelativeTime (\<lambda>s. if s = ''2024-01-01T00:00:00Z'' then Some 1704067200000 else None)
      1704067200000 (Some ''2024-01-01T00:00:00Z'') = ''Today''"
  using formatRelativeTime_whole_days [of "''2024-01-01T00:00:00Z''"
          "\<lambda>s. if s = ''2024-01-01T00:00:00Z'' then Some 1704067200000 else None"
          1704067200000 "1704067200000 + 10 * 86400000" 10]
        formatRelativeTime_whole_days [of "''2024-01-01T00:00:00Z''"
          "\<lambda>s. if s = ''2024-01-01T00:00:00Z'' then Some 1704067200000 else None"
          1704067200000 "1704067200000 + 40 * 86400000" 40]
        formatRelativeTime_whole_days [of "''2024-01-01T00:00:00Z''"
          "\<lambda>s. if s = ''2024-01-01T00:00:00Z'' then Some 1704067200000 else None"
          1704067200000 "1704067200000 + 400 * 86400000" 400]
        formatRelativeTime_whole_days [of "''2024-01-01T00:00:00Z''"
          "\<lambda>s. if s = ''2024-01-01T00:00:00Z'' then Some 1704067200000 else None"
          1704067200000 "1704067200000 + 3 * 86400000" 3]
        formatRelativeTime_whole_days [of "''2024-01-01T00:00:00Z''"
          "\<lambda>s. if s = ''2024-01-01T00:00:00Z'' then Some 1704067200000 else None"
          1704067200000 "1704067200000 + 1 * 86400000" 1]
        formatRelativeTime_whole_days [of "''2024-01-01T00:00:00Z''"
          "\<lambda>s. if s = ''2024-01-01T00:00:00Z'' then Some 1704067200000 else None"
          1704067200000 1704067200000 0]
  by (simp add: number_text_def decimal.simps digit_def)

text \<open>
  C9. For an absent and for an empty timestamp, \<open>formatDate\<close> returns \<open>Not set\<close> and
  \<open>formatRelativeTime\<close> returns \<open>Unknown\<close>; both are total functions, so neither raises.
\<close>

theorem empty_timestamp_sentinels:
  "formatDate parse toLocaleDateString None = ''Not set'' \<and>
   formatDate parse toLocaleDateString (Some []) = ''Not set'' \<and>
   formatRelativeTime parse now None = ''Unknown'' \<and>
   formatRelativeTime parse now (Some []) = ''Unknown''"
  by (simp add: formatDate_def formatRelativeTime_def)

text \<open>
  C10. For a non-empty timestamp strictly in the future the whole-day difference is at
  most \<open>-1\<close>; \<open>formatRelativeTime\<close> does not return \<open>Today\<close> but takes the branch of
  \<open>days ago\<close>, printing the negative difference.
\<close>

theorem formatRelativeTime_future:
  assumes "s \<noteq> []" and "parse s = Some date" and "now < date"
  shows "(now - date) div 86400000 \<le> - 1 \<and>
         formatRelativeTime parse now (Some s) \<noteq> ''Today'' \<and>
         formatRelativeTime parse now (Some s) =
           number_text ((now - date) div 86400000) @ '' days ago''"
proof -
  have neg: "(now - date) div 86400000 \<le> - 1"
  proof -
    have "now - date < 0" using assms(3) by simp
    then have "(now - date) div 86400000 < 0"
      by (simp add: pos_imp_zdiv_neg_iff)
    then show ?thesis by simp
  qed
  have eq: "formatRelativeTime parse now (Some s) =
           number_text ((now - date) div 86400000) @ '' days ago''"
    using assms(1,2) neg by (simp add: formatRelativeTime_def relative_bucket_def Let_def)
  have "number_text ((now - date) div 86400000) @ '' days ago'' \<noteq> ''Today''"
  proof
    assume "number_text ((now - date) div 86400000) @ '' days ago'' = ''Today''"
    then have "last (number_text ((now - date) div 86400000) @ '' days ago'') = last ''Today''"
      by (rule arg_cong)
    then show False by simp
  qed
  then show ?thesis using neg eq by simp
qed

text \<open>C10, for a timestamp one hour in the future: the result is \<open>-1 days ago\<close>.\<close>

theorem formatRelativeTime_future_witness:
  "formatRelativeTime (\<lambda>s. if s = ''2024-01-01T01:00:00Z'' then Some 1704070800000 else None)
      1704067200000 (Some ''2024-01-01T01:00:00Z'') = ''-1 days ago''"
  using formatRelativeTime_future [of "''2024-01-01T01:00:00Z''"
          "\<lambda>s. if s = ''2024-01-01T01:00:00Z'' then Some 1704070800000 else None"
          1704070800000 1704067200000]
  by (simp add: number_text_def decimal.simps digit_def)


section \<open>Properties of the ModalController\<close>

lemma block_in_style: "display e = ''block'' \<Longrightarrow> str_includes (style_attr e) ''block''"
  by (simp add: style_attr_def)

lemma closing_unlocks: "closing_op p op \<Longrightarrow> \<not> scroll_locked (modal_step p op)"
  by (cases op) (auto simp: scroll_locked_def hideModal_def window_onclick_def keydown_def)

lemma only_closing_unlocks:
  "scroll_locked p \<Longrightarrow> \<not> closing_op p op \<Longrightarrow> scroll_locked (modal_step p op)"
  by (cases op)
    (auto simp: scroll_locked_def showModal_def hideModal_def window_onclick_def keydown_def
      split: option.splits)

lemma index_of_id_bound: "index_of_id i es = Some k \<Longrightarrow> k < length es"
  by (induction es arbitrary: k) (auto split: if_splits)

lemma index_of_id_ids:
  "map elem_id es = map elem_id es' \<Longrightarrow> index_of_id i es = index_of_id i es'"
proof (induction es arbitrary: es')
  case Nil
  then show ?case by simp
next
  case (Cons e es)
  then obtain e' es'' where "es' = e' # es''" by (cases es') auto
  with Cons show ?case by auto
qed

lemma set_display_ids: "map elem_id (set_display k v es) = map elem_id es"
proof (cases "k < length es")
  case True
  then have "(map elem_id es)[k := elem_id (es ! k)] = map elem_id es"
    by (simp add: list_update_same_conv)
  then show ?thesis by (simp add: set_display_def map_update)
next
  case False
  then show ?thesis by (simp add: set_display_def list_update_beyond)
qed

lemma index_of_id_set_display: "index_of_id i (set_display k v es) = index_of_id i es"
  by (rule index_of_id_ids) (rule set_display_ids)

lemma set_display_twice: "set_display k v (set_display k w es) = set_display k v es"
  by (cases "k < length es") (simp_all add: set_display_def list_update_beyond)

lemma set_display_nth: "k < length es \<Longrightarrow> display (set_display k v es ! k) = v"
  by (simp add: set_display_def)

lemma set_display_same:
  "k < length es \<Longrightarrow> display (es ! k) = v \<Longrightarrow> set_display k v es = es"
  by (simp add: set_display_def list_update_same_conv)

lemma escape_elements:
  "elements (keydown ''Escape'' p) =
     map (\<lambda>modal. if open_modal modal then modal\<lparr>display := ''none''\<rparr> else modal) (elements p)"
  by (simp add: keydown_def)

lemma escape_ids: "map elem_id (elements (keydown ''Escape'' p)) = map elem_id (elements p)"
  by (simp add: escape_elements comp_def if_distrib cong: if_cong)

lemma escape_nth:
  "k < length (elements p) \<Longrightarrow>
     elements (keydown ''Escape'' p) ! k =
       (if has_class ''modal'' (elements p ! k) \<and> str_includes (style_attr (elements p ! k)) ''block''
        then (elements p ! k)\<lparr>display := ''none''\<rparr> else elements p ! k)"
  by (simp add: escape_elements open_modal_def)

lemma escape_after_show:
  assumes "getElementById i p = Some k" and "has_class ''modal'' (elements p ! k)"
  shows "display_of i (keydown ''Escape'' (showModal i p)) = Some ''none''"
proof -
  from assms(1) have ne: "i \<noteq> []" and idx: "index_of_id i (elements p) = Some k"
    by (auto simp: getElementById_def split: if_splits)
  from idx have k: "k < length (elements p)" by (rule index_of_id_bound)
  have shown: "elements (showModal i p) = set_display k ''block'' (elements p)"
    using assms(1) by (simp add: showModal_def)
  have len: "k < length (elements (showModal i p))"
    using k by (simp add: shown set_display_def)
  have el: "elements (showModal i p) ! k = (elements p ! k)\<lparr>display := ''block''\<rparr>"
    using k by (simp add: shown set_display_def)
  have "has_class ''modal'' (elements (showModal i p) ! k)"
    using assms(2) by (simp add: el has_class_def classList_def)
  moreover have "str_includes (style_attr (elements (showModal i p) ! k)) ''block''"
    by (rule block_in_style) (simp add: el)
  ultimately have hid: "elements (keydown ''Escape'' (showModal i p)) ! k =
      (elements (showModal i p) ! k)\<lparr>display := ''none''\<rparr>"
    using escape_nth [OF len] by simp
  have "index_of_id i (elements (keydown ''Escape'' (showModal i p))) =
        index_of_id i (elements (showModal i p))"
    by (rule index_of_id_ids) (rule escape_ids)
  then have g: "getElementById i (keydown ''Escape'' (showModal i p)) = Some k"
    using ne idx by (simp add: getElementById_def shown index_of_id_set_display)
  show ?thesis by (simp add: display_of_def g hid)
qed

text \<open>
  C1, as stated, fails: on the page with the two modals \<open>a\<close> and \<open>b\<close>, after \<open>show(a)\<close> and
  \<open>show(b)\<close> the scroll is locked, and after \<open>hide(a)\<close> the modal \<open>b\<close> is still shown, with
  display \<open>block\<close>, while the scroll is unlocked.
\<close>

theorem scroll_lock_counterexample:
  "scroll_locked (run_modal_ops [Show ''a'', Show ''b''] two_modals) \<and>
   display_of ''a'' (run_modal_ops [Show ''a'', Show ''b'', Hide ''a''] two_modals) = Some ''none'' \<and>
   display_of ''b'' (run_modal_ops [Show ''a'', Show ''b'', Hide ''a''] two_modals) = Some ''block'' \<and>
   \<not> scroll_locked (run_modal_ops [Show ''a'', Show ''b'', Hide ''a''] two_modals)"
  by (simp add: run_modal_ops_def two_modals_def showModal_def hideModal_def getElementById_def
      set_display_def createElement_def display_of_def scroll_locked_def)

text \<open>
  C1, amended. Every closing operation (\<open>hide\<close> of an id that the document has, a click
  on an element of class \<open>modal\<close>, a press of Escape) releases the scroll-lock, whatever
  other modals are shown; no other operation releases it. A press of Escape sets the
  display to \<open>none\<close> on exactly the elements of class \<open>modal\<close> whose style text contains
  \<open>block\<close>, and leaves every other element as it is; so it hides an element of class
  \<open>modal\<close> that \<open>show\<close> has just displayed.
\<close>

theorem scroll_lock_release:
  "(closing_op p op \<longrightarrow> \<not> scroll_locked (modal_step p op)) \<and>
   (scroll_locked p \<and> \<not> closing_op p op \<longrightarrow> scroll_locked (modal_step p op)) \<and>
   length (elements (modal_step p (KeyDown ''Escape''))) = length (elements p) \<and>
   (\<forall>k < length (elements p).
      (has_class ''modal'' (elements p ! k) \<and> str_includes (style_attr (elements p ! k)) ''block''
         \<longrightarrow> elements (modal_step p (KeyDown ''Escape'')) ! k =
               (elements p ! k)\<lparr>display := ''none''\<rparr>) \<and>
      (\<not> (has_class ''modal'' (elements p ! k) \<and>
           str_includes (style_attr (elements p ! k)) ''block'')
         \<longrightarrow> elements (modal_step p (KeyDown ''Escape'')) ! k = elements p ! k)) \<and>
   (\<forall>i k. getElementById i p = Some k \<and> has_class ''modal'' (elements p ! k) \<longrightarrow>
      display_of i (modal_step (showModal i p) (KeyDown ''Escape'')) = Some ''none'')"
proof -
  have a: "closing_op p op \<longrightarrow> \<not> scroll_locked (modal_step p op)"
    using closing_unlocks [of p op] by simp
  have b: "scroll_locked p \<and> \<not> closing_op p op \<longrightarrow> scroll_locked (modal_step p op)"
    using only_closing_unlocks [of p op] by simp
  have c: "length (elements (modal_step p (KeyDown ''Escape''))) = length (elements p)"
    by (simp add: escape_elements)
  have d: "\<forall>k < length (elements p).
      (has_class ''modal'' (elements p ! k) \<and> str_includes (style_attr (elements p ! k)) ''block''
         \<longrightarrow> elements (modal_step p (KeyDown ''Escape'')) ! k =
               (elements p ! k)\<lparr>display := ''none''\<rparr>) \<and>
      (\<not> (has_class ''modal'' (elements p ! k) \<and>
           str_includes (style_attr (elements p ! k)) ''block'')
         \<longrightarrow> elements (modal_step p (KeyDown ''Escape'')) ! k = elements p ! k)"
    by (simp add: escape_nth)
  have e: "\<forall>i k. getElementById i p = Some k \<and> has_class ''modal'' (elements p ! k) \<longrightarrow>
      display_of i (modal_step (showModal i p) (KeyDown ''Escape'')) = Some ''none''"
    using escape_after_show [of _ p] by simp
  from a b c d e show ?thesis by blast
qed

text \<open>
  C1, amended. On the page with two modals: with both shown, \<open>hide(a)\<close> closes and
  unlocks; with \<open>a\<close> shown, \<open>hide(c)\<close> of an id that is not there leaves the lock. On the
  page with \<open>a\<close>, \<open>x\<close>, \<open>f\<close> and \<open>u\<close>, after \<open>show(a)\<close> and \<open>show(x)\<close> a press of Escape
  hides \<open>a\<close> and unlocks the scroll, while \<open>x\<close>, which has not the class \<open>modal\<close>, stays
  at \<open>block\<close>, \<open>f\<close> at \<open>flex\<close> and \<open>u\<close> at \<open>BLOCK\<close>.
\<close>

theorem scroll_lock_release_witness:
  "closing_op (run_modal_ops [Show ''a'', Show ''b''] two_modals) (Hide ''a'') \<and>
   \<not> scroll_locked (modal_step (run_modal_ops [Show ''a'', Show ''b''] two_modals) (Hide ''a'')) \<and>
   scroll_locked (run_modal_ops [Show ''a''] two_modals) \<and>
   \<not> closing_op (run_modal_ops [Show ''a''] two_modals) (Hide ''c'') \<and>
   scroll_locked (modal_step (run_modal_ops [Show ''a''] two_modals) (Hide ''c'')) \<and>
   display (elements
     (modal_step (run_modal_ops [Show ''a'', Show ''x''] mixed_page) (KeyDown ''Escape'')) ! 0) =
     ''none'' \<and>
   display (elements
     (modal_step (run_modal_ops [Show ''a'', Show ''x''] mixed_page) (KeyDown ''Escape'')) ! 1) =
     ''block'' \<and>
   display (elements
     (modal_step (run_modal_ops [Show ''a'', Show ''x''] mixed_page) (KeyDown ''Escape'')) ! 2) =
     ''flex'' \<and>
   display (elements
     (modal_step (run_modal_ops [Show ''a'', Show ''x''] mixed_page) (KeyDown ''Escape'')) ! 3) =
     ''BLOCK'' \<and>
   \<not> scroll_locked (modal_step (run_modal_ops [Show ''a'', Show ''x''] mixed_page) (KeyDown ''Escape'')) \<and>
   display_of ''a'' (modal_step (showModal ''a'' mixed_page) (KeyDown ''Escape'')) = Some ''none''"
proof -
  let ?P = "run_modal_ops [Show ''a'', Show ''x''] mixed_page"
  let ?Q = "modal_step ?P (KeyDown ''Escape'')"
  have c: "closing_op (run_modal_ops [Show ''a'', Show ''b''] two_modals) (Hide ''a'')"
    by (simp add: run_modal_ops_def two_modals_def showModal_def getElementById_def
        set_display_def createElement_def)
  have l: "scroll_locked (run_modal_ops [Show ''a''] two_modals) \<and>
           \<not> closing_op (run_modal_ops [Show ''a''] two_modals) (Hide ''c'')"
    by (simp add: run_modal_ops_def two_modals_def showModal_def getElementById_def
        set_display_def createElement_def scroll_locked_def)
  have first: "\<not> scroll_locked
                 (modal_step (run_modal_ops [Show ''a'', Show ''b''] two_modals) (Hide ''a'')) \<and>
               scroll_locked (modal_step (run_modal_ops [Show ''a''] two_modals) (Hide ''c''))"
    using c l
      scroll_lock_release [of "run_modal_ops [Show ''a'', Show ''b''] two_modals" "Hide ''a''"]
      scroll_lock_release [of "run_modal_ops [Show ''a''] two_modals" "Hide ''c''"]
    by blast
  have els: "elements ?P =
        [(createElement 0)\<lparr>elem_id := ''a'', className := ''modal'', display := ''block''\<rparr>,
         (createElement 1)\<lparr>elem_id := ''x'', className := ''panel'', display := ''block''\<rparr>,
         (createElement 2)\<lparr>elem_id := ''f'', className := ''modal'', display := ''flex''\<rparr>,
         (createElement 3)\<lparr>elem_id := ''u'', className := ''modal'', display := ''BLOCK''\<rparr>]"
    by (simp add: run_modal_ops_def mixed_page_def showModal_def getElementById_def
        set_display_def createElement_def)
  have len: "length (elements ?P) = 4" by (simp add: els)
  have h0: "has_class ''modal'' (elements ?P ! 0) \<and>
            str_includes (style_attr (elements ?P ! 0)) ''block''"
    by (simp add: els has_class_def classList_def is_space_def style_attr_def createElement_def)
  have h1: "\<not> (has_class ''modal'' (elements ?P ! 1) \<and>
               str_includes (style_attr (elements ?P ! 1)) ''block'')"
    by (simp add: els has_class_def classList_def is_space_def createElement_def)
  have h2: "\<not> (has_class ''modal'' (elements ?P ! 2) \<and>
               str_includes (style_attr (elements ?P ! 2)) ''block'')"
    by (simp add: els style_attr_def createElement_def)
  have h3: "\<not> (has_class ''modal'' (elements ?P ! 3) \<and>
               str_includes (style_attr (elements ?P ! 3)) ''block'')"
    by (simp add: els style_attr_def createElement_def)
  note r = scroll_lock_release [of ?P "KeyDown ''Escape''"]
  have "0 < length (elements ?P)" and "1 < length (elements ?P)"
    and "2 < length (elements ?P)" and "3 < length (elements ?P)" using len by simp_all
  then have q: "elements ?Q ! 0 = (elements ?P ! 0)\<lparr>display := ''none''\<rparr> \<and>
             elements ?Q ! 1 = elements ?P ! 1 \<and>
             elements ?Q ! 2 = elements ?P ! 2 \<and>
             elements ?Q ! 3 = elements ?P ! 3"
    using r h0 h1 h2 h3 by blast
  have shown: "display (elements ?Q ! 0) = ''none'' \<and> display (elements ?Q ! 1) = ''block'' \<and>
               display (elements ?Q ! 2) = ''flex'' \<and> display (elements ?Q ! 3) = ''BLOCK''"
    using q by (simp add: els)
  have "closing_op ?P (KeyDown ''Escape'')" by simp
  then have unl: "\<not> scroll_locked ?Q" using r by blast
  have g: "getElementById ''a'' mixed_page = Some 0 \<and> has_class ''modal'' (elements mixed_page ! 0)"
    by (simp add: mixed_page_def getElementById_def has_class_def classList_def is_space_def)
  then have esc: "display_of ''a'' (modal_step (showModal ''a'' mixed_page) (KeyDown ''Escape'')) =
      Some ''none''"
    using scroll_lock_release [of mixed_page "KeyDown ''Escape''"] by blast
  from c l first shown unl esc show ?thesis by blast
qed

text \<open>
  C8, as stated, fails in its last part: with modal \<open>b\<close> shown the page is locked, and
  \<open>show(a)\<close> followed by \<open>hide(a)\<close> leaves it unlocked, not in the scroll state it had
  before \<open>show(a)\<close>.
\<close>

theorem show_hide_round_trip_counterexample:
  "getElementById ''a'' (showModal ''b'' two_modals) = Some 0 \<and>
   scroll_locked (showModal ''b'' two_modals) \<and>
   \<not> scroll_locked (hideModal ''a'' (showModal ''a'' (showModal ''b'' two_modals)))"
  by (simp add: two_modals_def showModal_def hideModal_def getElementById_def
      set_display_def createElement_def scroll_locked_def)

text \<open>
  C8, amended. For an id that the document has, \<open>show(id)\<close> makes that modal visible and
  locks the scroll, and \<open>hide(id)\<close> after it makes the modal hidden and unlocks the
  scroll. This is the scroll state before \<open>show(id)\<close> exactly when the page was unlocked
  then; and when the modal was hidden with \<open>overflow\<close> at \<open>auto\<close>, the page after
  \<open>hide(id)\<close> is the page before \<open>show(id)\<close>.
\<close>

theorem show_hide_round_trip:
  assumes "getElementById i p = Some k"
  shows "display_of i (showModal i p) = Some ''block'' \<and>
         scroll_locked (showModal i p) \<and>
         display_of i (hideModal i (showModal i p)) = Some ''none'' \<and>
         \<not> scroll_locked (hideModal i (showModal i p)) \<and>
         (scroll_locked (hideModal i (showModal i p)) = scroll_locked p \<longleftrightarrow>
            \<not> scroll_locked p) \<and>
         (display_of i p = Some ''none'' \<and> overflow p = ''auto'' \<longrightarrow>
            hideModal i (showModal i p) = p)"
proof -
  from assms have ne: "i \<noteq> []" and idx: "index_of_id i (elements p) = Some k"
    by (auto simp: getElementById_def split: if_splits)
  from idx have k: "k < length (elements p)" by (rule index_of_id_bound)
  have shown: "showModal i p =
      p\<lparr>elements := set_display k ''block'' (elements p), overflow := ''hidden''\<rparr>"
    using assms by (simp add: showModal_def)
  have g1: "getElementById i (showModal i p) = Some k"
    using ne idx by (simp add: shown getElementById_def index_of_id_set_display)
  have hidden: "hideModal i (showModal i p) =
      p\<lparr>elements := set_display k ''none'' (elements p), overflow := ''auto''\<rparr>"
    using g1 by (simp add: hideModal_def) (simp add: shown set_display_twice)
  have g2: "getElementById i (hideModal i (showModal i p)) = Some k"
    using ne idx by (simp add: hidden getElementById_def index_of_id_set_display)
  have a: "display_of i (showModal i p) = Some ''block''"
    using k by (simp add: display_of_def g1) (simp add: shown set_display_nth)
  have b: "scroll_locked (showModal i p)"
    by (simp add: shown scroll_locked_def)
  have c: "display_of i (hideModal i (showModal i p)) = Some ''none''"
    using k by (simp add: display_of_def g2) (simp add: hidden set_display_nth)
  have d: "\<not> scroll_locked (hideModal i (showModal i p))"
    by (simp add: hidden scroll_locked_def)
  have e: "display_of i p = Some ''none'' \<and> overflow p = ''auto'' \<longrightarrow>
            hideModal i (showModal i p) = p"
    using k assms by (auto simp: display_of_def hidden set_display_same)
  from a b c d e show ?thesis by blast
qed

text \<open>
  C8, amended, on the page with two hidden modals and \<open>overflow\<close> at \<open>auto\<close>: \<open>show(a)\<close>
  makes \<open>a\<close> visible and locks, and \<open>hide(a)\<close> gives the first page back.
\<close>

theorem show_hide_round_trip_witness:
  "display_of ''a'' (showModal ''a'' (two_modals\<lparr>overflow := ''auto''\<rparr>)) = Some ''block'' \<and>
   scroll_locked (showModal ''a'' (two_modals\<lparr>overflow := ''auto''\<rparr>)) \<and>
   hideModal ''a'' (showModal ''a'' (two_modals\<lparr>overflow := ''auto''\<rparr>)) =
     two_modals\<lparr>overflow := ''auto''\<rparr>"
proof -
  have g: "getElementById ''a'' (two_modals\<lparr>overflow := ''auto''\<rparr>) = Some 0"
    by (simp add: two_modals_def getElementById_def)
  have h: "display_of ''a'' (two_modals\<lparr>overflow := ''auto''\<rparr>) = Some ''none'' \<and>
           overflow (two_modals\<lparr>overflow := ''auto''\<rparr>) = ''auto''"
    by (simp add: display_of_def g) (simp add: two_modals_def createElement_def)
  show ?thesis
    using show_hide_round_trip [OF g] h by blast
qed


section \<open>Properties of the Notifier\<close>

lemma alert_class_token: "className e = ''alert alert-'' @ kind \<Longrightarrow> has_class ''alert'' e"
  by (simp add: has_class_def classList_def is_space_def)

lemma filter_alert_remaining:
  "filter (has_class ''alert'') (filter (\<lambda>alert. \<not> has_class ''alert'' alert) es) = []"
  by (induction es) auto

lemma showAlert_elements:
  "elements (showAlert msg type p) =
     filter (\<lambda>e. \<not> has_class ''alert'' e) (elements p) @
       [(createElement (next_node p))
          \<lparr>className := ''alert alert-'' @ (case type of None \<Rightarrow> ''success'' | Some t \<Rightarrow> t),
           textContent := msg\<rparr>]"
  by (simp add: showAlert_def Let_def)

lemma showAlert_alerts:
  "alerts (showAlert msg type p) =
     [(createElement (next_node p))
        \<lparr>className := ''alert alert-'' @ (case type of None \<Rightarrow> ''success'' | Some t \<Rightarrow> t),
         textContent := msg\<rparr>]"
proof -
  have "has_class ''alert'' ((createElement (next_node p))
        \<lparr>className := ''alert alert-'' @ (case type of None \<Rightarrow> ''success'' | Some t \<Rightarrow> t),
         textContent := msg\<rparr>)"
    by (rule alert_class_token) simp
  then show ?thesis
    unfolding alerts_def showAlert_elements filter_append filter_alert_remaining
    by simp
qed

text \<open>
  C5. A call of \<open>showAlert\<close> removes every element of class \<open>alert\<close> and appends one new
  element with the given message, so that afterwards exactly one alert is present and
  shows the message of the latest call, also after two calls in a row; with the kind
  omitted the element has the class \<open>alert-success\<close>.
\<close>

theorem showAlert_single_notification:
  "elements (showAlert msg type p) =
     filter (\<lambda>e. \<not> has_class ''alert'' e) (elements p) @
       [(createElement (next_node p))
          \<lparr>className := ''alert alert-'' @ (case type of None \<Rightarrow> ''success'' | Some t \<Rightarrow> t),
           textContent := msg\<rparr>] \<and>
   length (alerts (showAlert msg type p)) = 1 \<and>
   map textContent (alerts (showAlert msg type p)) = [msg] \<and>
   map className (alerts (showAlert msg type p)) =
     [''alert alert-'' @ (case type of None \<Rightarrow> ''success'' | Some t \<Rightarrow> t)] \<and>
   length (alerts (showAlert msg2 type2 (showAlert msg type p))) = 1 \<and>
   map textContent (alerts (showAlert msg2 type2 (showAlert msg type p))) = [msg2] \<and>
   map className (alerts (showAlert msg None p)) = [''alert alert-success'']"
  unfolding showAlert_alerts by (simp add: showAlert_elements)

text \<open>
  C5, for two calls in a row on the page with two modals: one alert is present, and it
  shows the second message.
\<close>

theorem showAlert_single_notification_witness:
  "map textContent
     (alerts (showAlert ''second'' (Some ''error'') (showAlert ''first'' None two_modals))) =
     [''second''] \<and>
   length
     (alerts (showAlert ''second'' (Some ''error'') (showAlert ''first'' None two_modals))) = 1 \<and>
   map className (alerts (showAlert ''first'' None two_modals)) = [''alert alert-success'']"
  using showAlert_single_notification
    [of "''first''" None two_modals "''second''" "Some ''error''"]
  by simp


section \<open>Properties of the Validator\<close>

lemma validate_fields_eq:
  "validate_fields form isValid =
     (isValid \<and> list_all (\<lambda>field. \<not> required field \<or> trim (field_value field) \<noteq> []) form,
      map (\<lambda>field. if required field
                    then field\<lparr>borderColor :=
                           (if trim (field_value field) = [] then ''#de350b'' else ''#dfe1e6'')\<rparr>
                    else field) form)"
  by (induction form arbitrary: isValid) auto

lemma has_class_borderColor [simp]: "has_class c (e\<lparr>borderColor := v\<rparr>) = has_class c e"
  by (simp add: has_class_def classList_def)

text \<open>
  C6. \<open>validateForm\<close> returns the conjunction, over the required fields of the form, of
  "the trimmed value is not empty"; it marks exactly the required fields whose trimmed
  value is empty, clears the marking of the other required fields, and leaves every field
  that is not required as it was.
\<close>

theorem validateForm_required_fields:
  "fst (validateForm form) =
     (\<forall>field \<in> set form. required field \<longrightarrow> trim (field_value field) \<noteq> []) \<and>
   length (snd (validateForm form)) = length form \<and>
   (\<forall>i < length form.
      (required (form ! i) \<and> trim (field_value (form ! i)) = [] \<longrightarrow>
         snd (validateForm form) ! i = (form ! i)\<lparr>borderColor := ''#de350b''\<rparr> \<and>
         marked_invalid (snd (validateForm form) ! i)) \<and>
      (required (form ! i) \<and> trim (field_value (form ! i)) \<noteq> [] \<longrightarrow>
         snd (validateForm form) ! i = (form ! i)\<lparr>borderColor := ''#dfe1e6''\<rparr> \<and>
         marking_cleared (snd (validateForm form) ! i) \<and>
         \<not> marked_invalid (snd (validateForm form) ! i)) \<and>
      (\<not> required (form ! i) \<longrightarrow> snd (validateForm form) ! i = form ! i))"
  by (auto simp: validateForm_def validate_fields_eq list_all_iff marked_invalid_def
        marking_cleared_def)

text \<open>
  C6, on a form with one empty and one filled required field: the result is false and
  only the empty field is marked invalid. A field that is not required keeps the marking
  it had.
\<close>

theorem validateForm_required_fields_witness:
  "fst (validateForm two_required) = False \<and>
   map marked_invalid (snd (validateForm two_required)) = [True, False] \<and>
   map marking_cleared (snd (validateForm two_required)) = [False, True] \<and>
   snd (validateForm with_optional) ! 2 = (createElement 2)\<lparr>borderColor := ''#de350b''\<rparr>"
proof -
  have r: "required (two_required ! 0) \<and> trim (field_value (two_required ! 0)) = [] \<and>
           required (two_required ! 1) \<and> trim (field_value (two_required ! 1)) \<noteq> [] \<and>
           length two_required = 2 \<and> two_required ! 0 \<in> set two_required"
    by (simp add: two_required_def createElement_def trim_def js_whitespace_def)
  have len: "length (snd (validateForm two_required)) = 2"
    using validateForm_required_fields [of two_required] r by simp
  from r have
    "\<not> (\<forall>field \<in> set two_required. required field \<longrightarrow> trim (field_value field) \<noteq> [])"
    by blast
  then have f: "fst (validateForm two_required) = False"
    using validateForm_required_fields [of two_required] by simp
  have "0 < length two_required" and "1 < length two_required" using r by simp_all
  then have m: "marked_invalid (snd (validateForm two_required) ! 0) \<and>
     marking_cleared (snd (validateForm two_required) ! 1) \<and>
     \<not> marked_invalid (snd (validateForm two_required) ! 1) \<and>
     snd (validateForm two_required) ! 0 = (two_required ! 0)\<lparr>borderColor := ''#de350b''\<rparr>"
    using validateForm_required_fields [of two_required] r by blast
  then have "\<not> marking_cleared (snd (validateForm two_required) ! 0)"
    by (simp add: marking_cleared_def)
  with m len f have first: "fst (validateForm two_required) = False \<and>
   map marked_invalid (snd (validateForm two_required)) = [True, False] \<and>
   map marking_cleared (snd (validateForm two_required)) = [False, True]"
    by (cases "snd (validateForm two_required)"; cases "tl (snd (validateForm two_required))")
      auto
  have o: "2 < length with_optional \<and> \<not> required (with_optional ! 2) \<and>
           with_optional ! 2 = (createElement 2)\<lparr>borderColor := ''#de350b''\<rparr>"
    by (simp add: with_optional_def two_required_def createElement_def)
  then have "snd (validateForm with_optional) ! 2 = with_optional ! 2"
    using validateForm_required_fields [of with_optional] by blast
  with o first show ?thesis by simp
qed

text \<open>
  C7, as stated, fails in its last part: a required field without the class
  \<open>form-control\<close> is marked invalid by \<open>validateForm\<close> and is still marked after
  \<open>resetFormValidation\<close>.
\<close>

theorem resetFormValidation_counterexample:
  "marked_invalid (snd (validateForm unstyled_required) ! 0) \<and>
   marked_invalid (resetFormValidation (snd (validateForm unstyled_required)) ! 0)"
  by (simp add: unstyled_required_def validateForm_def resetFormValidation_def createElement_def
      marked_invalid_def trim_def has_class_def classList_def)

text \<open>
  C7, amended. \<open>resetFormValidation\<close> clears the marking of every field of class
  \<open>form-control\<close>, whatever its value and marking, also of one that \<open>validateForm\<close> has
  just marked; every other field it leaves as it is.
\<close>

theorem resetFormValidation_form_controls:
  "length (resetFormValidation form) = length form \<and>
   (\<forall>i < length form.
      (has_class ''form-control'' (form ! i) \<longrightarrow>
         resetFormValidation form ! i = (form ! i)\<lparr>borderColor := ''#dfe1e6''\<rparr> \<and>
         marking_cleared (resetFormValidation form ! i) \<and>
         marking_cleared (resetFormValidation (snd (validateForm form)) ! i)) \<and>
      (\<not> has_class ''form-control'' (form ! i) \<longrightarrow>
         resetFormValidation form ! i = form ! i \<and>
         resetFormValidation (snd (validateForm form)) ! i = snd (validateForm form) ! i))"
  by (auto simp: resetFormValidation_def validateForm_def validate_fields_eq marking_cleared_def)

text \<open>
  C7, amended, on an empty required field of class \<open>form-control\<close>: \<open>validateForm\<close>
  marks it and \<open>resetFormValidation\<close> clears it; a field without the class is left as
  it is.
\<close>

theorem resetFormValidation_form_controls_witness:
  "marked_invalid (snd (validateForm styled_required) ! 0) \<and>
   marking_cleared (resetFormValidation (snd (validateForm styled_required)) ! 0) \<and>
   resetFormValidation unstyled_required ! 0 = unstyled_required ! 0"
proof -
  have h: "0 < length styled_required \<and> has_class ''form-control'' (styled_required ! 0)"
    by (simp add: styled_required_def has_class_def classList_def is_space_def)
  have m: "marked_invalid (snd (validateForm styled_required) ! 0)"
    by (simp add: styled_required_def validateForm_def createElement_def marked_invalid_def
        trim_def)
  have u: "0 < length unstyled_required \<and> \<not> has_class ''form-control'' (unstyled_required ! 0)"
    by (simp add: unstyled_required_def has_class_def classList_def createElement_def)
  show ?thesis
    using h m u resetFormValidation_form_controls [of styled_required]
      resetFormValidation_form_controls [of unstyled_required] by blast
qed


section \<open>Properties of the RequestClient\<close>

lemma read_message_field:
  "result \<noteq> Json JNull \<Longrightarrow> read_message pf result = Inr (message_field result)"
  by (cases "(pf, result)" rule: read_message.cases) (simp_all add: message_field_def)

lemma makeRequest_fst:
  "fst (makeRequest pf url meth data) = try_block pf url (request_options pf meth data)"
  by (simp add: makeRequest_def split: sum.splits)

lemma decimal_500: "decimal 500 = ''500''"
  by (simp add: decimal.simps digit_def)

text \<open>
  C2, as stated, fails. A response of status 500 that declares JSON and has an empty
  body surfaces the message of the decoding error, where the policy gives the
  synthesized \<open>HTTP 500: Internal Server Error\<close>; and a JSON response of status 400 whose
  \<open>message\<close> field is the empty string surfaces \<open>HTTP 400: Bad Request\<close>, where the policy
  gives the field.
\<close>

theorem makeRequest_failure_message_counterexample:
  "fst (makeRequest (simulated empty_json_500) ''/api'' None None) =
     Inl (JsError ''SyntaxError'' ''Unexpected end of JSON input'') \<and>
   spec_failure_message (Resolved empty_json_500) = ''HTTP 500: Internal Server Error'' \<and>
   fst (makeRequest (simulated empty_message_400) ''/api'' None None) =
     Inl (JsError ''Error'' ''HTTP 400: Bad Request'') \<and>
   spec_failure_message (Resolved empty_message_400) = []"
  by (simp add: makeRequest_def try_block_def simulated_def empty_json_500_def
      empty_message_400_def decode_body_def ok_def http_status_message_def decimal.simps digit_def
      spec_failure_message_def message_field_def)

text \<open>
  C2, amended. When \<open>fetch\<close> rejects, or the decoding of the body rejects, \<open>makeRequest\<close>
  throws that error with its own message. For a response of non-success status whose
  body decodes to text or to a JSON value other than \<open>null\<close>, it throws an error whose
  message is the string form of the payload's \<open>message\<close> field when the field is present
  and truthy, and \<open>HTTP status: statusText\<close> otherwise; for a status 500 with an empty
  text body that is \<open>HTTP 500:\<close> followed by the status text.
\<close>

theorem makeRequest_failure_message:
  assumes "fetch pf url (request_options pf meth data) = outcome"
  shows
    "(outcome = Rejected e \<longrightarrow> fst (makeRequest pf url meth data) = Inl e) \<and>
     (outcome = Resolved r \<and> decode_body r = Inl e \<longrightarrow>
        fst (makeRequest pf url meth data) = Inl e) \<and>
     (outcome = Resolved r \<and> \<not> ok r \<and> decode_body r = Inr result \<and> result \<noteq> Json JNull \<longrightarrow>
        fst (makeRequest pf url meth data) =
          Inl (JsError ''Error''
                 (case message_field result of
                    Some m \<Rightarrow> if truthy m then to_string m else http_status_message r
                  | None \<Rightarrow> http_status_message r))) \<and>
     (outcome = Resolved r \<and> status r = 500 \<and> decode_body r = Inr (Text []) \<longrightarrow>
        fst (makeRequest pf url meth data) =
          Inl (JsError ''Error'' (''HTTP 500: '' @ statusText r)))"
  using assms
  by (auto simp: makeRequest_fst try_block_def read_message_field ok_def http_status_message_def
        decimal_500 message_field_def split: option.splits)

text \<open>
  C2, amended, at the two responses of the specification, the JSON response of status
  400 with the message \<open>bad input\<close>, which surfaces exactly that text, and the response
  of status 500 with an empty text body, which surfaces \<open>HTTP 500: Internal Server
  Error\<close>; at a response whose decoding rejects; and at a \<open>fetch\<close> that rejects.
\<close>

theorem makeRequest_failure_message_witness:
  "fst (makeRequest (simulated bad_input_400) ''/api'' None None) =
     Inl (JsError ''Error'' ''bad input'') \<and>
   fst (makeRequest (simulated empty_text_500) ''/api'' None None) =
     Inl (JsError ''Error'' ''HTTP 500: Internal Server Error'') \<and>
   fst (makeRequest (simulated empty_json_500) ''/api'' None None) =
     Inl (JsError ''SyntaxError'' ''Unexpected end of JSON input'') \<and>
   fst (makeRequest offline ''/api'' None None) = Inl (JsError ''TypeError'' ''Failed to fetch'')"
proof -
  have f: "\<And>r. fetch (simulated r) ''/api'' (request_options (simulated r) None None) =
             Resolved r"
    by (simp add: simulated_def)
  have g: "fetch offline ''/api'' (request_options offline None None) =
             Rejected (JsError ''TypeError'' ''Failed to fetch'')"
    by (simp add: offline_def)
  have a: "\<not> ok bad_input_400 \<and>
           decode_body bad_input_400 = Inr (Json (JObj [(''message'', JStr ''bad input'')])) \<and>
           message_field (Json (JObj [(''message'', JStr ''bad input'')])) =
             Some (JStr ''bad input'')"
    by (simp add: bad_input_400_def ok_def decode_body_def message_field_def)
  have b: "status empty_text_500 = 500 \<and> decode_body empty_text_500 = Inr (Text []) \<and>
           statusText empty_text_500 = ''Internal Server Error''"
    by (simp add: empty_text_500_def decode_body_def)
  have c: "decode_body empty_json_500 =
             Inl (JsError ''SyntaxError'' ''Unexpected end of JSON input'')"
    by (simp add: empty_json_500_def decode_body_def)
  show ?thesis
    using makeRequest_failure_message [OF f, of bad_input_400 _ bad_input_400
            "Json (JObj [(''message'', JStr ''bad input'')])"]
          makeRequest_failure_message [OF f, of empty_text_500 _ empty_text_500]
          makeRequest_failure_message [OF f, of empty_json_500
            "JsError ''SyntaxError'' ''Unexpected end of JSON input''" empty_json_500]
          makeRequest_failure_message [OF g, of "JsError ''TypeError'' ''Failed to fetch''"]
          a b c
    by simp
qed

text \<open>
  C3. \<open>makeRequest\<close> throws exactly what its \<open>try\<close> block throws. Whenever it throws, it
  has called \<open>showAlert\<close> exactly once, with the message of the thrown error and the kind
  \<open>error\<close>; whenever it returns, it has not called \<open>showAlert\<close>; and it throws whenever
  \<open>fetch\<close> rejects or the response has a non-success status.
\<close>

theorem makeRequest_dual_channel:
  "fst (makeRequest pf url meth data) = try_block pf url (request_options pf meth data) \<and>
   (\<forall>error. fst (makeRequest pf url meth data) = Inl error \<longrightarrow>
      alert_calls (snd (makeRequest pf url meth data)) = [(message error, Some ''error'')]) \<and>
   (\<forall>result. fst (makeRequest pf url meth data) = Inr result \<longrightarrow>
      alert_calls (snd (makeRequest pf url meth data)) = []) \<and>
   ((case fetch pf url (request_options pf meth data) of
       Rejected e \<Rightarrow> True
     | Resolved r \<Rightarrow> \<not> ok r) \<longrightarrow>
      isl (fst (makeRequest pf url meth data)))"
proof -
  have a: "fst (makeRequest pf url meth data) = try_block pf url (request_options pf meth data)"
    by (rule makeRequest_fst)
  have b: "\<forall>error. fst (makeRequest pf url meth data) = Inl error \<longrightarrow>
      alert_calls (snd (makeRequest pf url meth data)) = [(message error, Some ''error'')]"
    by (auto simp: makeRequest_def alert_calls_def split: sum.splits)
  have c: "\<forall>result. fst (makeRequest pf url meth data) = Inr result \<longrightarrow>
      alert_calls (snd (makeRequest pf url meth data)) = []"
    by (auto simp: makeRequest_def alert_calls_def split: sum.splits)
  have d: "(case fetch pf url (request_options pf meth data) of
       Rejected e \<Rightarrow> True
     | Resolved r \<Rightarrow> \<not> ok r) \<longrightarrow>
      isl (fst (makeRequest pf url meth data))"
    by (auto simp: makeRequest_fst try_block_def
          split: fetch_result.splits sum.splits option.splits)
  from a b c d show ?thesis by blast
qed

text \<open>
  C3, at the JSON response of status 400 with the message \<open>bad input\<close>: the error is
  thrown, logged, and shown by one call of \<open>showAlert\<close> with the kind \<open>error\<close>. A
  rejected \<open>fetch\<close> throws as well, and a response of status 201 returns its payload
  with no call of \<open>showAlert\<close>.
\<close>

theorem makeRequest_dual_channel_witness:
  "makeRequest (simulated bad_input_400) ''/api'' None None =
     (Inl (JsError ''Error'' ''bad input''),
      [ConsoleError ''Request failed:'' (JsError ''Error'' ''bad input''),
       ShowAlert ''bad input'' (Some ''error'')]) \<and>
   alert_calls (snd (makeRequest (simulated bad_input_400) ''/api'' None None)) =
     [(''bad input'', Some ''error'')] \<and>
   isl (fst (makeRequest offline ''/api'' None None)) \<and>
   fst (makeRequest (simulated created_201) ''/api'' (Some ''POST'') None) =
     Inr (Json (JObj [(''id'', JNum ''7'')])) \<and>
   alert_calls (snd (makeRequest (simulated created_201) ''/api'' (Some ''POST'') None)) = []"
proof -
  have e: "makeRequest (simulated bad_input_400) ''/api'' None None =
     (Inl (JsError ''Error'' ''bad input''),
      [ConsoleError ''Request failed:'' (JsError ''Error'' ''bad input''),
       ShowAlert ''bad input'' (Some ''error'')])"
    by (simp add: makeRequest_def try_block_def simulated_def bad_input_400_def decode_body_def
        ok_def)
  then have "fst (makeRequest (simulated bad_input_400) ''/api'' None None) =
     Inl (JsError ''Error'' ''bad input'')" by simp
  with makeRequest_dual_channel [of "simulated bad_input_400" "''/api''" None None]
  have a: "alert_calls (snd (makeRequest (simulated bad_input_400) ''/api'' None None)) =
     [(message (JsError ''Error'' ''bad input''), Some ''error'')]" by blast
  have "case fetch offline ''/api'' (request_options offline None None) of
          Rejected e \<Rightarrow> True | Resolved r \<Rightarrow> \<not> ok r"
    by (simp add: offline_def)
  with makeRequest_dual_channel [of offline "''/api''" None None]
  have b: "isl (fst (makeRequest offline ''/api'' None None))" by blast
  have r: "fst (makeRequest (simulated created_201) ''/api'' (Some ''POST'') None) =
     Inr (Json (JObj [(''id'', JNum ''7'')]))"
    by (simp add: makeRequest_def try_block_def simulated_def created_201_def decode_body_def
        ok_def)
  with makeRequest_dual_channel [of "simulated created_201" "''/api''" "Some ''POST''" None]
  have c: "alert_calls (snd (makeRequest (simulated created_201) ''/api'' (Some ''POST'') None)) = []"
    by blast
  from e a b r c show ?thesis by simp
qed

end
